theory Spec2Isabelle
  imports Complex_Main "HOL-Library.Word"
begin

section \<open>The transcription session handler of main.py\<close>

text \<open>
  The development embeds \<^verbatim>\<open>websocket_transcribe\<close> (main.py, lines 35-135), the
  coroutine that serves one WebSocket connection. The recognition engine (vosk), the
  transport (Starlette's WebSocket) and Python's \<^verbatim>\<open>int\<close> on strings are
  collaborators outside the repository: they are parameters of the model, each call
  returning either a value or the exception it raises. Only subclasses of
  \<^verbatim>\<open>Exception\<close> are modelled, the model starts after
  \<^verbatim>\<open>websocket.accept()\<close> has returned, and the server delivers only
  \<^verbatim>\<open>websocket.receive\<close> and \<^verbatim>\<open>websocket.disconnect\<close> messages.
\<close>

subsection \<open>Python values\<close>

type_synonym bytes = "8 word list"

datatype pyfloat = Finite rat | PosInfinity | NegInfinity | NaN

text \<open>What \<^verbatim>\<open>json.loads\<close> returns. A dict is its list of items, one per key.\<close>

datatype json =
    JNull
  | JBool bool
  | JInt int
  | JFloat pyfloat
  | JStr string
  | JArr "json list"
  | JObj "(string \<times> json) list"

datatype exn =
    WebSocketDisconnect
  | JSONDecodeError
  | KeyError
  | TypeError
  | ValueError
  | OverflowError
  | AttributeError
  | RecursionError
  | UnicodeEncodeError
  | Exception string

text \<open>Truth value of an object, as tested by \<^verbatim>\<open>if text:\<close>.\<close>

fun truthy :: "json \<Rightarrow> bool" where
  "truthy JNull = False"
| "truthy (JBool b) = b"
| "truthy (JInt n) = (n \<noteq> 0)"
| "truthy (JFloat x) = (x \<noteq> Finite 0)"
| "truthy (JStr s) = (s \<noteq> [])"
| "truthy (JArr xs) = (xs \<noteq> [])"
| "truthy (JObj kvs) = (kvs \<noteq> [])"

text \<open>
  \<^verbatim>\<open>obj.get(key, default)\<close>: only a dict has the method; on any other JSON value
  the attribute lookup raises AttributeError.
\<close>

fun dict_get :: "json \<Rightarrow> string \<Rightarrow> json \<Rightarrow> exn + json" where
  "dict_get (JObj kvs) k dflt = Inr (case map_of kvs k of None \<Rightarrow> dflt | Some v \<Rightarrow> v)"
| "dict_get JNull k dflt = Inl AttributeError"
| "dict_get (JBool b) k dflt = Inl AttributeError"
| "dict_get (JInt n) k dflt = Inl AttributeError"
| "dict_get (JFloat x) k dflt = Inl AttributeError"
| "dict_get (JStr s) k dflt = Inl AttributeError"
| "dict_get (JArr xs) k dflt = Inl AttributeError"

text \<open>
  \<^verbatim>\<open>int(v)\<close> on a JSON value. The parse of a string is the builtin's, taken as the
  parameter \<open>int_of_str\<close> (\<open>None\<close> where it raises ValueError).
\<close>

fun py_int :: "(string \<Rightarrow> int option) \<Rightarrow> json \<Rightarrow> exn + int" where
  "py_int int_of_str (JInt n) = Inr n"
| "py_int int_of_str (JBool b) = Inr (if b then 1 else 0)"
| "py_int int_of_str (JFloat (Finite q)) = Inr (if 0 \<le> q then \<lfloor>q\<rfloor> else \<lceil>q\<rceil>)"
| "py_int int_of_str (JFloat PosInfinity) = Inl OverflowError"
| "py_int int_of_str (JFloat NegInfinity) = Inl OverflowError"
| "py_int int_of_str (JFloat NaN) = Inl ValueError"
| "py_int int_of_str (JStr s) = (case int_of_str s of None \<Rightarrow> Inl ValueError | Some n \<Rightarrow> Inr n)"
| "py_int int_of_str JNull = Inl TypeError"
| "py_int int_of_str (JArr xs) = Inl TypeError"
| "py_int int_of_str (JObj kvs) = Inl TypeError"

text \<open>
  A string is the list of its bytes. Whatever the encoding of the standard output, a text
  of ASCII characters only can be written to it; formatting a JSON value whose strings
  are all ASCII gives such a text.
\<close>

definition ascii :: "string \<Rightarrow> bool" where
  "ascii s = list_all (\<lambda>c. \<not> digit7 c) s"

fun ascii_only :: "json \<Rightarrow> bool" where
  "ascii_only JNull = True"
| "ascii_only (JBool b) = True"
| "ascii_only (JInt n) = True"
| "ascii_only (JFloat x) = True"
| "ascii_only (JStr s) = ascii s"
| "ascii_only (JArr xs) = list_all ascii_only xs"
| "ascii_only (JObj kvs) = list_all (\<lambda>kv. ascii (fst kv) \<and> ascii_only (snd kv)) kvs"

subsection \<open>Messages, events and collaborators\<close>

text \<open>
  What the \<^verbatim>\<open>text\<close> key of a message holds: \<^verbatim>\<open>None\<close>, or a string. A
  string is represented by what \<^verbatim>\<open>json.loads\<close> makes of it: the parsed value, or
  the exception it raises, which is JSONDecodeError for a text that is not JSON,
  RecursionError for a nesting too deep, and ValueError for an integer literal beyond the
  digit limit.
\<close>

datatype payload = Parsed json | Rejected exn | PyNone

text \<open>
  An ASGI message. \<open>msg_text\<close> is \<open>None\<close> when the message has no
  \<^verbatim>\<open>text\<close> key; \<open>msg_bytes\<close> is \<open>None\<close> when the \<^verbatim>\<open>bytes\<close> key is
  missing or holds \<^verbatim>\<open>None\<close>, which \<^verbatim>\<open>message.get("bytes")\<close> does not tell
  apart.
\<close>

record message =
  msg_type :: string
  msg_text :: "payload option"
  msg_bytes :: "bytes option"

text \<open>
  The dicts passed to \<^verbatim>\<open>send_json\<close>: \<open>Segment text confidence participantIdentity
  roomId\<close>, \<open>Partial text participantIdentity roomId\<close>, and \<open>ErrorEvent exc\<close> whose
  message is \<^verbatim>\<open>str(exc)\<close>.
\<close>

datatype event =
    Segment json json json json
  | Partial json json json
  | ErrorEvent exn

text \<open>The calls the handler makes on its collaborators, in order, with the outcome of a send or close.\<close>

datatype action =
    Created int
  | Flushed
  | Send event "exn option"
  | Close "exn option"

text \<open>
  The collaborators, over a recognizer state \<open>'r\<close> and a transport state \<open>'t\<close>.
  \<open>KaldiRecognizer\<close> is the construction with \<^verbatim>\<open>SetWords(True)\<close>;
  \<open>Result\<close>, \<open>PartialResult\<close> and \<open>FinalResult\<close> stand for the call followed by
  \<^verbatim>\<open>json.loads\<close> of the string it returns. \<open>stdout_rejects v\<close> says that the
  encoder of the standard output refuses the text that formatting \<open>v\<close> gives.
\<close>

record ('r, 't) deps =
  int_of_str :: "string \<Rightarrow> int option"
  KaldiRecognizer :: "int \<Rightarrow> exn + 'r"
  AcceptWaveform :: "'r \<Rightarrow> bytes \<Rightarrow> (exn + bool) \<times> 'r"
  Result :: "'r \<Rightarrow> (exn + json) \<times> 'r"
  PartialResult :: "'r \<Rightarrow> (exn + json) \<times> 'r"
  FinalResult :: "'r \<Rightarrow> (exn + json) \<times> 'r"
  send_json :: "'t \<Rightarrow> event \<Rightarrow> exn option \<times> 't"
  close :: "'t \<Rightarrow> exn option \<times> 't"
  stdout_rejects :: "json \<Rightarrow> bool"

text \<open>The handler's local variables, the transport, and the calls made so far.\<close>

record ('r, 't) session =
  recognizer :: "'r option"
  participant_identity :: json
  room_id :: json
  websocket :: 't
  trace :: "action list"

definition SAMPLE_RATE_DEFAULT :: int where
  "SAMPLE_RATE_DEFAULT = 16000"

definition create_recognizer :: "('r, 't) deps \<Rightarrow> int \<Rightarrow> exn + 'r" where
  "create_recognizer d sample_rate = KaldiRecognizer d sample_rate"

definition send :: "('r, 't) deps \<Rightarrow> ('r, 't) session \<Rightarrow> event \<Rightarrow> exn option \<times> ('r, 't) session" where
  "send d s ev =
     (let (res, t') = send_json d (websocket s) ev
      in (res, s\<lparr>websocket := t', trace := trace s @ [Send ev res]\<rparr>))"

subsection \<open>The handler\<close>

text \<open>
  Starlette's \<^verbatim>\<open>receive_text\<close> on the message received: it raises on a
  disconnect and returns \<^verbatim>\<open>message["text"]\<close> otherwise.
\<close>

definition receive_text :: "message \<Rightarrow> exn + payload" where
  "receive_text message =
     (if msg_type message = ''websocket.disconnect'' then Inl WebSocketDisconnect
      else case msg_text message of None \<Rightarrow> Inl KeyError | Some init \<Rightarrow> Inr init)"

text \<open>
  Line 48: the \<^verbatim>\<open>print\<close> of the sample rate and the two labels. The sample rate
  is an integer that \<^verbatim>\<open>int\<close> has returned, within the digit limit of its
  conversion to text, so only a label can make the write fail: it raises UnicodeEncodeError
  when the label has a non-ASCII string that the standard output cannot encode.
\<close>

definition print_init :: "('r, 't) deps \<Rightarrow> int \<Rightarrow> json \<Rightarrow> json \<Rightarrow> exn option" where
  "print_init d sample_rate pid rid =
     (if (\<not> ascii_only pid \<and> stdout_rejects d pid) \<or> (\<not> ascii_only rid \<and> stdout_rejects d rid)
      then Some UnicodeEncodeError else None)"

text \<open>
  Lines 43-50: the handshake, on the first message. \<^verbatim>\<open>json.loads(None)\<close> raises
  TypeError.
\<close>

definition handshake ::
  "('r, 't) deps \<Rightarrow> ('r, 't) session \<Rightarrow> message \<Rightarrow> exn option \<times> ('r, 't) session" where
  "handshake d s message =
     (case receive_text message of
        Inl e \<Rightarrow> (Some e, s)
      | Inr init \<Rightarrow>
        (case init of
           PyNone \<Rightarrow> (Some TypeError, s)
         | Rejected e \<Rightarrow> (Some e, s)
         | Parsed init_payload \<Rightarrow>
           (case dict_get init_payload ''sampleRate'' (JInt SAMPLE_RATE_DEFAULT) of
              Inl e \<Rightarrow> (Some e, s)
            | Inr v \<Rightarrow>
              (case py_int (int_of_str d) v of
                 Inl e \<Rightarrow> (Some e, s)
               | Inr sample_rate \<Rightarrow>
                 (case dict_get init_payload ''participantIdentity'' (participant_identity s) of
                    Inl e \<Rightarrow> (Some e, s)
                  | Inr pid \<Rightarrow>
                    (case dict_get init_payload ''roomId'' (room_id s) of
                       Inl e \<Rightarrow> (Some e, s\<lparr>participant_identity := pid\<rparr>)
                     | Inr rid \<Rightarrow>
                       (case print_init d sample_rate pid rid of
                          Some e \<Rightarrow> (Some e, s\<lparr>participant_identity := pid, room_id := rid\<rparr>)
                        | None \<Rightarrow>
                          (case create_recognizer d sample_rate of
                             Inl e \<Rightarrow> (Some e, s\<lparr>participant_identity := pid, room_id := rid\<rparr>)
                           | Inr r \<Rightarrow>
                             (None, s\<lparr>participant_identity := pid, room_id := rid,
                                       recognizer := Some r,
                                       trace := trace s @ [Created sample_rate]\<rparr>)))))))))"

text \<open>
  Lines 72-110: one audio chunk. The result is the exception raised, if any. The
  \<^verbatim>\<open>print\<close> calls of these lines write a length, the two labels that line 48 has
  written before, and the text the engine has decoded; they are taken to return.
\<close>

definition on_audio ::
  "('r, 't) deps \<Rightarrow> ('r, 't) session \<Rightarrow> bytes \<Rightarrow> exn option \<times> ('r, 't) session" where
  "on_audio d s audio_bytes =
     (case recognizer s of
        None \<Rightarrow> (Some AttributeError, s)
      | Some r \<Rightarrow>
        (let (accepted, r1) = AcceptWaveform d r audio_bytes; s1 = s\<lparr>recognizer := Some r1\<rparr>
         in case accepted of
              Inl e \<Rightarrow> (Some e, s1)
            | Inr is_final \<Rightarrow>
              if is_final then
                (let (res, r2) = Result d r1; s2 = s1\<lparr>recognizer := Some r2\<rparr>
                 in case res of
                      Inl e \<Rightarrow> (Some e, s2)
                    | Inr result \<Rightarrow>
                      (case dict_get result ''text'' (JStr []) of
                         Inl e \<Rightarrow> (Some e, s2)
                       | Inr text \<Rightarrow>
                         if truthy text then
                           (case dict_get result ''confidence'' JNull of
                              Inl e \<Rightarrow> (Some e, s2)
                            | Inr confidence \<Rightarrow>
                              send d s2 (Segment text confidence
                                           (participant_identity s2) (room_id s2)))
                         else (None, s2)))
              else
                (let (res, r2) = PartialResult d r1; s2 = s1\<lparr>recognizer := Some r2\<rparr>
                 in case res of
                      Inl e \<Rightarrow> (Some e, s2)
                    | Inr presult \<Rightarrow>
                      (case dict_get presult ''partial'' JNull of
                         Inl e \<Rightarrow> (Some e, s2)
                       | Inr partial \<Rightarrow>
                         if truthy partial then
                           send d s2 (Partial partial (participant_identity s2) (room_id s2))
                         else (None, s2)))))"

text \<open>
  How the \<^verbatim>\<open>try\<close> body stands: suspended in \<^verbatim>\<open>receive_text\<close> or in the
  loop's \<^verbatim>\<open>receive\<close> because no further message has arrived, left by
  \<^verbatim>\<open>break\<close>, or left by an exception.
\<close>

datatype flow = Suspended_init | Suspended_loop | Done | Raised exn

text \<open>Line 58: the message has a \<^verbatim>\<open>text\<close> key that does not hold \<^verbatim>\<open>None\<close>.\<close>

definition has_text :: "message \<Rightarrow> bool" where
  "has_text message =
     (case msg_text message of None \<Rightarrow> False | Some PyNone \<Rightarrow> False
      | Some (Parsed data) \<Rightarrow> True | Some (Rejected e) \<Rightarrow> True)"

text \<open>
  Lines 52-110: the loop, over the messages that arrive. Line 61 catches JSONDecodeError
  only; any other exception of \<^verbatim>\<open>json.loads\<close> leaves the loop. Under
  \<open>has_text\<close> the text is a string, so the last two cases of the inner case
  distinction never apply.
\<close>

fun streaming ::
  "('r, 't) deps \<Rightarrow> ('r, 't) session \<Rightarrow> message list \<Rightarrow> flow \<times> ('r, 't) session" where
  "streaming d s [] = (Suspended_loop, s)"
| "streaming d s (message # rest) =
     (if msg_type message = ''websocket.disconnect'' then (Done, s)
      else if has_text message then
        (case msg_text message of
           Some (Rejected e) \<Rightarrow>
             if e = JSONDecodeError then streaming d s rest else (Raised e, s)
         | Some (Parsed data) \<Rightarrow>
             (case dict_get data ''type'' JNull of
                Inl e \<Rightarrow> (Raised e, s)
              | Inr ty \<Rightarrow> if ty = JStr ''stop'' then (Done, s) else streaming d s rest)
         | Some PyNone \<Rightarrow> streaming d s rest
         | None \<Rightarrow> streaming d s rest)
      else
        (case msg_bytes message of
           None \<Rightarrow> streaming d s rest
         | Some audio_bytes \<Rightarrow>
           (case on_audio d s audio_bytes of
              (Some e, s') \<Rightarrow> (Raised e, s')
            | (None, s') \<Rightarrow> streaming d s' rest)))"

text \<open>Lines 42-110: the \<^verbatim>\<open>try\<close> body.\<close>

definition try_body ::
  "('r, 't) deps \<Rightarrow> ('r, 't) session \<Rightarrow> message list \<Rightarrow> flow \<times> ('r, 't) session" where
  "try_body d s frames =
     (case frames of
        [] \<Rightarrow> (Suspended_init, s)
      | init # rest \<Rightarrow>
        (case handshake d s init of
           (Some e, s1) \<Rightarrow> (Raised e, s1)
         | (None, s1) \<Rightarrow> streaming d s1 rest))"

text \<open>
  Where the session stands. \<open>AwaitingInit\<close> and \<open>Streaming\<close> are the two suspension
  points, \<open>Terminating\<close> is the entry of the \<^verbatim>\<open>finally\<close> block, \<open>Closed\<close> its
  normal end, and \<open>Escaped e\<close> an exception leaving the handler.
\<close>

datatype phase = AwaitingInit | Streaming | Terminating | Closed | Escaped exn

text \<open>Lines 111-117: the \<^verbatim>\<open>except\<close> clauses.\<close>

definition except_clauses ::
  "('r, 't) deps \<Rightarrow> flow \<times> ('r, 't) session \<Rightarrow> phase \<times> ('r, 't) session" where
  "except_clauses d fs =
     (case fs of
        (Suspended_init, s) \<Rightarrow> (AwaitingInit, s)
      | (Suspended_loop, s) \<Rightarrow> (Streaming, s)
      | (Done, s) \<Rightarrow> (Terminating, s)
      | (Raised e, s) \<Rightarrow>
          if e = WebSocketDisconnect then (Terminating, s)
          else (Terminating, snd (send d s (ErrorEvent e))))"

text \<open>Lines 132-135: closing the transport, any exception swallowed.\<close>

definition close_ws :: "('r, 't) deps \<Rightarrow> ('r, 't) session \<Rightarrow> ('r, 't) session" where
  "close_ws d s =
     (let (res, t') = close d (websocket s)
      in s\<lparr>websocket := t', trace := trace s @ [Close res]\<rparr>)"

text \<open>Lines 118-135: the \<^verbatim>\<open>finally\<close> block.\<close>

definition finally_block ::
  "('r, 't) deps \<Rightarrow> ('r, 't) session \<Rightarrow> phase \<times> ('r, 't) session" where
  "finally_block d s =
     (case recognizer s of
        None \<Rightarrow> (Closed, close_ws d s)
      | Some r \<Rightarrow>
        (let (res, r') = FinalResult d r;
             s1 = s\<lparr>recognizer := Some r', trace := trace s @ [Flushed]\<rparr>
         in case res of
              Inl e \<Rightarrow> (Escaped e, s1)
            | Inr final \<Rightarrow>
              (case dict_get final ''text'' JNull of
                 Inl e \<Rightarrow> (Escaped e, s1)
               | Inr text \<Rightarrow>
                 if truthy text then
                   (case dict_get final ''confidence'' JNull of
                      Inl e \<Rightarrow> (Escaped e, s1)
                    | Inr confidence \<Rightarrow>
                      (case send d s1 (Segment text confidence
                                         (participant_identity s1) (room_id s1)) of
                         (Some e, s2) \<Rightarrow> (Escaped e, s2)
                       | (None, s2) \<Rightarrow> (Closed, close_ws d s2)))
                 else (Closed, close_ws d s1))))"

text \<open>The \<^verbatim>\<open>except\<close> clauses and the \<^verbatim>\<open>finally\<close> block, after the \<^verbatim>\<open>try\<close> body.\<close>

definition finish ::
  "('r, 't) deps \<Rightarrow> flow \<times> ('r, 't) session \<Rightarrow> phase \<times> ('r, 't) session" where
  "finish d fs =
     (let (p, s) = except_clauses d fs
      in if p = Terminating then finally_block d s else (p, s))"

text \<open>Lines 38-40: the locals at the start.\<close>

definition initial :: "'t \<Rightarrow> ('r, 't) session" where
  "initial t =
     \<lparr>recognizer = None, participant_identity = JStr ''unknown'', room_id = JStr ''unknown'',
      websocket = t, trace = []\<rparr>"

text \<open>The session as it stands when the \<^verbatim>\<open>finally\<close> block is about to run (or before).\<close>

definition before_finally ::
  "('r, 't) deps \<Rightarrow> 't \<Rightarrow> message list \<Rightarrow> phase \<times> ('r, 't) session" where
  "before_finally d t frames = except_clauses d (try_body d (initial t) frames)"

text \<open>The handler, on the messages that arrive on the connection.\<close>

definition websocket_transcribe ::
  "('r, 't) deps \<Rightarrow> 't \<Rightarrow> message list \<Rightarrow> phase \<times> ('r, 't) session" where
  "websocket_transcribe d t frames = finish d (try_body d (initial t) frames)"

subsection \<open>What a run shows\<close>

text \<open>The events handed to \<^verbatim>\<open>send_json\<close>, in order, whether or not the write succeeded.\<close>

primrec events :: "action list \<Rightarrow> event list" where
  "events [] = []"
| "events (a # tr) = (case a of Send ev res \<Rightarrow> ev # events tr | _ \<Rightarrow> events tr)"

fun is_segment :: "event \<Rightarrow> bool" where
  "is_segment (Segment text confidence pid rid) = True"
| "is_segment (Partial text pid rid) = False"
| "is_segment (ErrorEvent e) = False"

fun is_error :: "event \<Rightarrow> bool" where
  "is_error (ErrorEvent e) = True"
| "is_error (Segment text confidence pid rid) = False"
| "is_error (Partial text pid rid) = False"

fun is_created :: "action \<Rightarrow> bool" where
  "is_created (Created sample_rate) = True"
| "is_created Flushed = False"
| "is_created (Send ev res) = False"
| "is_created (Close res) = False"

fun is_close :: "action \<Rightarrow> bool" where
  "is_close (Close res) = True"
| "is_close (Created sample_rate) = False"
| "is_close Flushed = False"
| "is_close (Send ev res) = False"

text \<open>How often a recognizer was created, flushed, the transport closed, an error event sent.\<close>

definition creations :: "action list \<Rightarrow> nat" where
  "creations tr = length (filter is_created tr)"

definition flushes :: "action list \<Rightarrow> nat" where
  "flushes tr = count_list tr Flushed"

definition closes :: "action list \<Rightarrow> nat" where
  "closes tr = length (filter is_close tr)"

definition error_events :: "action list \<Rightarrow> nat" where
  "error_events tr = length (filter is_error (events tr))"

text \<open>
  The exception that feeding a chunk to the recognizer raises, from
  \<^verbatim>\<open>AcceptWaveform\<close> or from the \<^verbatim>\<open>Result\<close> or \<^verbatim>\<open>PartialResult\<close>
  read after it; \<open>None\<close> when the engine raises nothing.
\<close>

definition feed_raises :: "('r, 't) deps \<Rightarrow> 'r \<Rightarrow> bytes \<Rightarrow> exn option" where
  "feed_raises d r audio_bytes =
     (let (accepted, r1) = AcceptWaveform d r audio_bytes
      in case accepted of
           Inl e \<Rightarrow> Some e
         | Inr is_final \<Rightarrow>
           (case fst (if is_final then Result d r1 else PartialResult d r1) of
              Inl e \<Rightarrow> Some e
            | Inr result \<Rightarrow> None))"

text \<open>Calls other than the sending of an error event, a creation, a flush or a close.\<close>

fun is_data :: "action \<Rightarrow> bool" where
  "is_data (Send ev res) = (\<not> is_error ev)"
| "is_data (Created sample_rate) = False"
| "is_data Flushed = False"
| "is_data (Close res) = False"

text \<open>The first message has arrived and lines 43-50 ran through without an exception.\<close>

definition handshake_completed :: "('r, 't) deps \<Rightarrow> 't \<Rightarrow> message list \<Rightarrow> bool" where
  "handshake_completed d t frames =
     (case frames of [] \<Rightarrow> False | init # rest \<Rightarrow> fst (handshake d (initial t) init) = None)"

text \<open>The messages on which line 64 leaves the loop.\<close>

definition is_stop :: "message \<Rightarrow> bool" where
  "is_stop m =
     (msg_type m \<noteq> ''websocket.disconnect'' \<and>
      (case msg_text m of
         Some (Parsed data) \<Rightarrow> dict_get data ''type'' JNull = Inr (JStr ''stop'')
       | Some (Rejected e) \<Rightarrow> False
       | Some PyNone \<Rightarrow> False
       | None \<Rightarrow> False))"

subsection \<open>Scripted collaborators and sample messages\<close>

text \<open>
  A recognizer that answers every call with a fixed outcome and a transport whose writes
  succeed or fail as \<open>out\<close> says; both stateless. \<open>int_of_str\<close> refuses every
  string, and the sample messages carry no numeric string; the standard output encodes
  ASCII only. They serve as concrete inputs.
\<close>

definition scripted ::
  "(exn + bool) \<Rightarrow> (exn + json) \<Rightarrow> (exn + json) \<Rightarrow> (exn + json) \<Rightarrow> (event \<Rightarrow> exn option)
     \<Rightarrow> (unit, unit) deps" where
  "scripted fed res part fin out =
     \<lparr>int_of_str = (\<lambda>s. None), KaldiRecognizer = (\<lambda>sample_rate. Inr ()),
      AcceptWaveform = (\<lambda>r b. (fed, r)), Result = (\<lambda>r. (res, r)),
      PartialResult = (\<lambda>r. (part, r)), FinalResult = (\<lambda>r. (fin, r)),
      send_json = (\<lambda>t ev. (out ev, t)), close = (\<lambda>t. (None, t)),
      stdout_rejects = (\<lambda>v. True)\<rparr>"

definition text_frame :: "json \<Rightarrow> message" where
  "text_frame j =
     \<lparr>msg_type = ''websocket.receive'', msg_text = Some (Parsed j), msg_bytes = None\<rparr>"

definition malformed_frame :: message where
  "malformed_frame =
     \<lparr>msg_type = ''websocket.receive'', msg_text = Some (Rejected JSONDecodeError),
      msg_bytes = None\<rparr>"

definition audio_frame :: "bytes \<Rightarrow> message" where
  "audio_frame b = \<lparr>msg_type = ''websocket.receive'', msg_text = None, msg_bytes = Some b\<rparr>"

definition disconnect_frame :: message where
  "disconnect_frame =
     \<lparr>msg_type = ''websocket.disconnect'', msg_text = None, msg_bytes = None\<rparr>"

section \<open>Properties\<close>

subsection \<open>Auxiliary facts\<close>

lemmas handler_defs =
  websocket_transcribe_def before_finally_def finish_def try_body_def initial_def
  handshake_def receive_text_def except_clauses_def finally_block_def close_ws_def
  send_def on_audio_def create_recognizer_def SAMPLE_RATE_DEFAULT_def print_init_def
  has_text_def ascii_def

lemmas sample_defs =
  scripted_def text_frame_def malformed_frame_def audio_frame_def disconnect_frame_def

lemma events_append: "events (xs @ ys) = events xs @ events ys"
  by (induction xs) (auto split: action.splits)

lemma send_trace: "trace (snd (send d s ev)) = trace s @ [Send ev (fst (send d s ev))]"
  by (simp add: send_def split: prod.splits)

lemma send_fields:
  "recognizer (snd (send d s ev)) = recognizer s"
  "participant_identity (snd (send d s ev)) = participant_identity s"
  "room_id (snd (send d s ev)) = room_id s"
  by (simp_all add: send_def split: prod.splits)

lemmas count_defs = creations_def flushes_def closes_def error_events_def

lemma counts_append:
  "creations (xs @ ys) = creations xs + creations ys"
  "flushes (xs @ ys) = flushes xs + flushes ys"
  "closes (xs @ ys) = closes xs + closes ys"
  "error_events (xs @ ys) = error_events xs + error_events ys"
  by (simp_all add: count_defs events_append)

lemma counts_data:
  "list_all is_data xs \<Longrightarrow>
     creations xs = 0 \<and> flushes xs = 0 \<and> closes xs = 0 \<and> error_events xs = 0"
proof (induction xs)
  case Nil
  show ?case by (simp add: count_defs)
next
  case (Cons a xs)
  then show ?case by (cases a) (simp_all add: count_defs)
qed

lemma on_audio_recognizer:
  "recognizer s \<noteq> None \<Longrightarrow> recognizer (snd (on_audio d s a)) \<noteq> None"
  by (auto simp add: on_audio_def send_fields Let_def split: prod.splits sum.splits)

lemma on_audio_trace:
  "\<exists>xs. trace (snd (on_audio d s a)) = trace s @ xs \<and> list_all is_data xs"
  by (auto simp add: on_audio_def send_trace Let_def split: option.splits prod.splits sum.splits)

lemma streaming_recognizer:
  "recognizer s \<noteq> None \<Longrightarrow> recognizer (snd (streaming d s fs)) \<noteq> None"
proof (induction fs arbitrary: s)
  case Nil
  then show ?case by simp
next
  case (Cons m fs)
  show ?case
  proof (cases "on_audio d s (the (msg_bytes m))")
    case (Pair res s')
    with Cons.prems have "recognizer s' \<noteq> None"
      using on_audio_recognizer [of s d "the (msg_bytes m)"] by simp
    with Cons.IH [of s'] Cons.IH [of s] Cons.prems Pair show ?thesis
      by (auto split: option.splits payload.splits sum.splits)
  qed
qed

lemma streaming_trace:
  "\<exists>xs. trace (snd (streaming d s fs)) = trace s @ xs \<and> list_all is_data xs"
proof (induction fs arbitrary: s)
  case Nil
  then show ?case by simp
next
  case (Cons m fs)
  show ?case
  proof (cases "on_audio d s (the (msg_bytes m))")
    case (Pair res s')
    obtain xs where xs: "trace s' = trace s @ xs" "list_all is_data xs"
      using on_audio_trace [of d s "the (msg_bytes m)"] Pair by auto
    obtain ys where ys: "trace (snd (streaming d s' fs)) = trace s' @ ys" "list_all is_data ys"
      using Cons.IH [of s'] by auto
    have both: "trace (snd (streaming d s' fs)) = trace s @ (xs @ ys)" "list_all is_data (xs @ ys)"
      using xs ys by simp_all
    from Cons.IH [of s] Pair xs both show ?thesis
      by (auto split: option.splits payload.splits sum.splits simp del: append_assoc)
  qed
qed


lemma handshake_shape:
  obtains (failed) e s1 where "handshake d (initial t) m = (Some e, s1)"
      "recognizer s1 = None" "trace s1 = []"
  | (completed) r sample_rate s1 where "handshake d (initial t) m = (None, s1)"
      "recognizer s1 = Some r" "trace s1 = [Created sample_rate]"
proof (cases "handshake d (initial t) m")
  case (Pair res s1)
  then have "(\<exists>e. res = Some e \<and> recognizer s1 = None \<and> trace s1 = [])
      \<or> (res = None \<and> (\<exists>r sample_rate. recognizer s1 = Some r \<and> trace s1 = [Created sample_rate]))"
    by (auto simp add: handshake_def initial_def split: sum.splits payload.splits option.splits)
  with Pair failed completed show thesis by auto
qed

lemma finally_block_counts:
  "creations (trace (snd (finally_block d s))) = creations (trace s)"
  "flushes (trace (snd (finally_block d s))) =
     flushes (trace s) + (if recognizer s = None then 0 else 1)"
  "closes (trace (snd (finally_block d s))) \<le> closes (trace s) + 1"
  "error_events (trace (snd (finally_block d s))) = error_events (trace s)"
  by (auto simp add: finally_block_def close_ws_def send_def count_defs events_append Let_def
        split: option.splits prod.splits sum.splits)


lemma try_body_state:
  "recognizer (snd (try_body d (initial t) frames)) \<noteq> None \<longleftrightarrow> handshake_completed d t frames"
  "creations (trace (snd (try_body d (initial t) frames))) =
     (if handshake_completed d t frames then 1 else 0)"
  "flushes (trace (snd (try_body d (initial t) frames))) = 0"
  "closes (trace (snd (try_body d (initial t) frames))) = 0"
  "error_events (trace (snd (try_body d (initial t) frames))) = 0"
  "filter is_segment (events (trace (snd (try_body d (initial t) frames)))) \<noteq> [] \<Longrightarrow>
     handshake_completed d t frames"
proof -
  show "recognizer (snd (try_body d (initial t) frames)) \<noteq> None \<longleftrightarrow> handshake_completed d t frames"
  proof (cases frames)
    case Nil
    then show ?thesis by (simp add: try_body_def handshake_completed_def initial_def)
  next
    case (Cons m rest)
    show ?thesis
    proof (cases d t m rule: handshake_shape)
      case (failed e s1)
      with Cons show ?thesis by (simp add: try_body_def handshake_completed_def)
    next
      case (completed r sample_rate s1)
      with Cons streaming_recognizer [of s1 d rest] show ?thesis
        by (simp add: try_body_def handshake_completed_def)
    qed
  qed
next
  have counts: "creations (trace (snd (try_body d (initial t) frames))) =
       (if handshake_completed d t frames then 1 else 0)
     \<and> flushes (trace (snd (try_body d (initial t) frames))) = 0
     \<and> closes (trace (snd (try_body d (initial t) frames))) = 0
     \<and> error_events (trace (snd (try_body d (initial t) frames))) = 0
     \<and> (filter is_segment (events (trace (snd (try_body d (initial t) frames)))) \<noteq> [] \<longrightarrow>
          handshake_completed d t frames)"
  proof (cases frames)
    case Nil
    then show ?thesis
      by (simp add: try_body_def handshake_completed_def initial_def count_defs)
  next
    case (Cons m rest)
    show ?thesis
    proof (cases d t m rule: handshake_shape)
      case (failed e s1)
      with Cons show ?thesis by (simp add: try_body_def handshake_completed_def count_defs)
    next
      case (completed r sample_rate s1)
      obtain xs where xs: "trace (snd (streaming d s1 rest)) = trace s1 @ xs" "list_all is_data xs"
        using streaming_trace [of d s1 rest] by auto
      from Cons completed xs counts_data [OF xs(2)] show ?thesis
        by (simp add: try_body_def handshake_completed_def count_defs)
    qed
  qed
  then show "creations (trace (snd (try_body d (initial t) frames))) =
       (if handshake_completed d t frames then 1 else 0)"
    and "flushes (trace (snd (try_body d (initial t) frames))) = 0"
    and "closes (trace (snd (try_body d (initial t) frames))) = 0"
    and "error_events (trace (snd (try_body d (initial t) frames))) = 0"
    and "filter is_segment (events (trace (snd (try_body d (initial t) frames)))) \<noteq> [] \<Longrightarrow>
     handshake_completed d t frames"
    by simp_all
qed

lemma try_body_phase:
  "fst (try_body d (initial t) frames) = Suspended_init \<longleftrightarrow> frames = []"
  "fst (try_body d (initial t) frames) = Suspended_loop \<Longrightarrow> handshake_completed d t frames"
proof -
  have no_init: "fst (streaming d s fs) \<noteq> Suspended_init" for s fs
    by (induction fs arbitrary: s) (auto split: option.splits payload.splits sum.splits prod.splits)
  show "fst (try_body d (initial t) frames) = Suspended_init \<longleftrightarrow> frames = []"
    using no_init
    by (cases frames) (auto simp add: try_body_def split: prod.splits option.splits)
  show "fst (try_body d (initial t) frames) = Suspended_loop \<Longrightarrow> handshake_completed d t frames"
    by (cases frames) (auto simp add: try_body_def handshake_completed_def split: prod.splits option.splits)
qed

lemma except_phase:
  "fst (except_clauses d x) =
     (case fst x of Suspended_init \<Rightarrow> AwaitingInit | Suspended_loop \<Rightarrow> Streaming
      | Done \<Rightarrow> Terminating | Raised e \<Rightarrow> Terminating)"
  by (cases x) (simp add: except_clauses_def split: flow.splits)

lemma except_recognizer: "recognizer (snd (except_clauses d x)) = recognizer (snd x)"
  by (cases x) (simp add: except_clauses_def send_fields split: flow.splits)

lemma except_counts:
  "creations (trace (snd (except_clauses d x))) = creations (trace (snd x))"
  "flushes (trace (snd (except_clauses d x))) = flushes (trace (snd x))"
  "closes (trace (snd (except_clauses d x))) = closes (trace (snd x))"
  "error_events (trace (snd (except_clauses d x))) \<le> error_events (trace (snd x)) + 1"
  "filter is_segment (events (trace (snd (except_clauses d x)))) =
     filter is_segment (events (trace (snd x)))"
  by (cases x; simp add: except_clauses_def send_trace counts_append events_append split: flow.splits;
      simp add: count_defs)+

lemma finally_without_recognizer:
  "recognizer s = None \<Longrightarrow>
     filter is_segment (events (trace (snd (finally_block d s)))) =
     filter is_segment (events (trace s))"
  by (simp add: finally_block_def close_ws_def events_append split: prod.splits)

lemma handler_unfold:
  "websocket_transcribe d t frames =
     (if fst (before_finally d t frames) = Terminating
      then finally_block d (snd (before_finally d t frames))
      else before_finally d t frames)"
  by (simp add: websocket_transcribe_def finish_def before_finally_def split: prod.splits)

lemma before_finally_state:
  "recognizer (snd (before_finally d t frames)) \<noteq> None \<longleftrightarrow> handshake_completed d t frames"
  "creations (trace (snd (before_finally d t frames))) =
     (if handshake_completed d t frames then 1 else 0)"
  "flushes (trace (snd (before_finally d t frames))) = 0"
  "closes (trace (snd (before_finally d t frames))) = 0"
  "error_events (trace (snd (before_finally d t frames))) \<le> 1"
  "\<not> handshake_completed d t frames \<Longrightarrow>
     filter is_segment (events (trace (snd (before_finally d t frames)))) = []"
  using try_body_state [of d t frames]
    except_counts(4) [of d "try_body d (initial t) frames"]
  by (auto simp add: before_finally_def except_recognizer except_counts)

lemma handler_counts:
  "flushes (trace (snd (websocket_transcribe d t frames))) \<le> 1"
  "closes (trace (snd (websocket_transcribe d t frames))) \<le> 1"
  "error_events (trace (snd (websocket_transcribe d t frames))) \<le> 1"
  using finally_block_counts(3) [of d "snd (before_finally d t frames)"]
    before_finally_state(5) [of d t frames]
  by (simp_all add: handler_unfold finally_block_counts before_finally_state)

lemma streaming_after_stop:
  "is_stop m \<Longrightarrow> streaming d s (pre @ m # rest) = streaming d s (pre @ [m])"
proof (induction pre arbitrary: s)
  case Nil
  then show ?case
    by (auto simp add: is_stop_def has_text_def split: option.splits payload.splits sum.splits)
next
  case (Cons x pre)
  then show ?case
    by (auto split: option.splits payload.splits sum.splits prod.splits)
qed

lemma streaming_stop_leaves:
  "is_stop m \<Longrightarrow> fst (streaming d s (pre @ [m])) \<noteq> Suspended_loop"
proof (induction pre arbitrary: s)
  case Nil
  then show ?case
    by (auto simp add: is_stop_def has_text_def split: option.splits payload.splits sum.splits)
next
  case (Cons x pre)
  then show ?case
    by (auto split: option.splits payload.splits sum.splits prod.splits)
qed

lemma feed_raises_on_audio:
  "recognizer s = Some r \<Longrightarrow> feed_raises d r audio = Some e \<Longrightarrow>
     fst (on_audio d s audio) = Some e \<and> trace (snd (on_audio d s audio)) = trace s"
  by (auto simp add: feed_raises_def on_audio_def Let_def split: prod.splits sum.splits if_splits)

subsection \<open>Termination and the final Segment\<close>

text \<open>
  C1. The final Segment is sent from the \<^verbatim>\<open>finally\<close> block outside any
  \<^verbatim>\<open>try\<close> (lines 123-131), unlike the error event (lines 114-117) and the close
  (lines 132-135). In the run below the client disconnects after the handshake, the flush
  yields the text "done" and the write raises: the exception leaves the handler, and
  the trace holds no \<open>Close\<close>, so the failure is neither swallowed nor is the transport
  closed.
\<close>

theorem final_send_failure_escapes:
  "websocket_transcribe
     (scripted (Inr False) (Inr (JObj [])) (Inr (JObj [])) (Inr (JObj [(''text'', JStr ''done'')]))
        (\<lambda>ev. Some (Exception ''disconnected'')))
     () [text_frame (JObj []), disconnect_frame]
   = (Escaped (Exception ''disconnected''),
      \<lparr>recognizer = Some (), participant_identity = JStr ''unknown'', room_id = JStr ''unknown'',
       websocket = (),
       trace = [Created 16000, Flushed,
                Send (Segment (JStr ''done'') JNull (JStr ''unknown'') (JStr ''unknown''))
                  (Some (Exception ''disconnected''))]\<rparr>)"
  by (simp add: handler_defs sample_defs)

text \<open>
  What a stop message does when nothing fails afterwards: in a session that holds a
  recognizer it ends the loop whatever messages follow, and when the flush returns a JSON
  object and the transport accepts the write of the final Segment (if one is made), the
  handler makes one flush, one Segment if and only if the text is non-empty, and one close.
\<close>

lemma stop_flushes_and_closes:
  assumes "recognizer s = Some r"
      and "msg_type m \<noteq> ''websocket.disconnect''"
      and "msg_text m = Some (Parsed data)"
      and "dict_get data ''type'' JNull = Inr (JStr ''stop'')"
      and "FinalResult d r = (Inr final, r')"
      and "dict_get final ''text'' JNull = Inr txt"
      and "dict_get final ''confidence'' JNull = Inr confidence"
      and "truthy txt \<longrightarrow>
             fst (send_json d (websocket s)
                    (Segment txt confidence (participant_identity s) (room_id s))) = None"
  shows "fst (finish d (streaming d s (m # rest))) = Closed \<and>
         (\<exists>c. trace (snd (finish d (streaming d s (m # rest)))) =
                trace s @ [Flushed] @
                (if truthy txt
                 then [Send (Segment txt confidence (participant_identity s) (room_id s)) None]
                 else []) @ [Close c])"
  using assms
  by (auto simp add: finish_def except_clauses_def finally_block_def close_ws_def send_def
        has_text_def split: prod.splits)

text \<open>
  C2. A stop message does not always lead to \<open>Closed\<close>. In the run below the handshake is
  followed by a stop, the flush yields the text "done" and the write of the final
  Segment raises: the flush is made once and the Segment is handed to the transport, but
  the exception leaves the handler from the unguarded \<^verbatim>\<open>send_json\<close> of lines
  123-131 and the transport is never closed.
\<close>

theorem stop_with_failed_send_escapes:
  "websocket_transcribe
     (scripted (Inr False) (Inr (JObj [])) (Inr (JObj [])) (Inr (JObj [(''text'', JStr ''done'')]))
        (\<lambda>ev. Some (Exception ''disconnected'')))
     () [text_frame (JObj []), text_frame (JObj [(''type'', JStr ''stop'')])]
   = (Escaped (Exception ''disconnected''),
      \<lparr>recognizer = Some (), participant_identity = JStr ''unknown'', room_id = JStr ''unknown'',
       websocket = (),
       trace = [Created 16000, Flushed,
                Send (Segment (JStr ''done'') JNull (JStr ''unknown'') (JStr ''unknown''))
                  (Some (Exception ''disconnected''))]\<rparr>)"
  by (simp add: handler_defs sample_defs)

subsection \<open>The handshake\<close>

text \<open>
  C3, as amended. For a first message that is a JSON object: \<open>sampleRate\<close> is 16000
  when the key is absent and the value itself when it is an integer, in general
  \<^verbatim>\<open>int\<close> of the value; when that coercion raises, the exception leaves the
  \<^verbatim>\<open>try\<close> body with the locals unchanged and no recognizer created; when it
  succeeds, the line of line 48 can be written and \<^verbatim>\<open>KaldiRecognizer\<close> accepts
  that sample rate, the recognizer it returns for that rate is the session's,
  \<open>participantIdentity\<close> and \<open>roomId\<close> are the values given or "unknown" when absent,
  and the loop is entered.
\<close>

theorem handshake_fields:
  assumes "msg_type m \<noteq> ''websocket.disconnect''"
      and "msg_text m = Some (Parsed (JObj kvs))"
      and "coerced = py_int (int_of_str d)
                       (case map_of kvs ''sampleRate'' of None \<Rightarrow> JInt 16000 | Some v \<Rightarrow> v)"
      and "pid = (case map_of kvs ''participantIdentity'' of None \<Rightarrow> JStr ''unknown'' | Some v \<Rightarrow> v)"
      and "rid = (case map_of kvs ''roomId'' of None \<Rightarrow> JStr ''unknown'' | Some v \<Rightarrow> v)"
  shows "(map_of kvs ''sampleRate'' = None \<longrightarrow> coerced = Inr 16000)
       \<and> (\<forall>n. map_of kvs ''sampleRate'' = Some (JInt n) \<longrightarrow> coerced = Inr n)
       \<and> (\<forall>e. coerced = Inl e \<longrightarrow> try_body d (initial t) (m # rest) = (Raised e, initial t))
       \<and> (\<forall>sample_rate r.
            coerced = Inr sample_rate \<and> print_init d sample_rate pid rid = None \<and>
            KaldiRecognizer d sample_rate = Inr r \<longrightarrow>
            try_body d (initial t) (m # rest) =
              streaming d
                \<lparr>recognizer = Some r, participant_identity = pid, room_id = rid,
                 websocket = t, trace = [Created sample_rate]\<rparr> rest)"
proof -
  let ?v = "case map_of kvs ''sampleRate'' of None \<Rightarrow> JInt 16000 | Some v \<Rightarrow> v"
  have rt: "receive_text m = Inr (Parsed (JObj kvs))"
    using assms(1,2) by (simp add: receive_text_def)
  have absent: "map_of kvs ''sampleRate'' = None \<longrightarrow> coerced = Inr 16000"
    using assms(3) by simp
  have given: "\<forall>n. map_of kvs ''sampleRate'' = Some (JInt n) \<longrightarrow> coerced = Inr n"
    using assms(3) by simp
  have invalid: "\<forall>e. coerced = Inl e \<longrightarrow>
      try_body d (initial t) (m # rest) = (Raised e, initial t)"
    using rt assms(3) by (simp add: try_body_def handshake_def SAMPLE_RATE_DEFAULT_def)
  have valid: "\<forall>sample_rate r.
      coerced = Inr sample_rate \<and> print_init d sample_rate pid rid = None \<and>
      KaldiRecognizer d sample_rate = Inr r \<longrightarrow>
      try_body d (initial t) (m # rest) =
        streaming d
          \<lparr>recognizer = Some r, participant_identity = pid, room_id = rid,
           websocket = t, trace = [Created sample_rate]\<rparr> rest"
    using rt assms(3,4,5)
    by (simp add: try_body_def handshake_def SAMPLE_RATE_DEFAULT_def create_recognizer_def
          initial_def)
  from absent given invalid valid show ?thesis by (intro conjI)
qed

theorem handshake_fields_witness:
  "try_body (scripted (Inr False) (Inr (JObj [])) (Inr (JObj [])) (Inr (JObj [])) (\<lambda>ev. None))
     (initial ()) (text_frame (JObj [(''sampleRate'', JInt 8000), (''roomId'', JStr ''r1'')]) # []) =
   (Suspended_loop,
    \<lparr>recognizer = Some (), participant_identity = JStr ''unknown'', room_id = JStr ''r1'',
     websocket = (), trace = [Created 8000]\<rparr>)
   \<and> try_body (scripted (Inr False) (Inr (JObj [])) (Inr (JObj [])) (Inr (JObj [])) (\<lambda>ev. None))
     (initial ()) (text_frame (JObj [(''sampleRate'', JStr ''fast'')]) # []) =
   (Raised ValueError, initial ())"
proof -
  let ?d = "scripted (Inr False) (Inr (JObj [])) (Inr (JObj [])) (Inr (JObj [])) (\<lambda>ev. None)"
  let ?m = "text_frame (JObj [(''sampleRate'', JInt 8000), (''roomId'', JStr ''r1'')])"
  let ?bad = "text_frame (JObj [(''sampleRate'', JStr ''fast'')])"
  have printed: "print_init ?d 8000 (JStr ''unknown'') (JStr ''r1'') = None"
    by (simp add: print_init_def ascii_def)
  have built: "KaldiRecognizer ?d 8000 = Inr ()"
    by (simp add: scripted_def)
  have refused: "int_of_str ?d ''fast'' = None"
    by (simp add: scripted_def)
  note valid = handshake_fields [where m = ?m
      and kvs = "[(''sampleRate'', JInt 8000), (''roomId'', JStr ''r1'')]"
      and d = ?d and coerced = "Inr 8000" and pid = "JStr ''unknown''" and rid = "JStr ''r1''"
      and t = "()" and rest = "[]"]
  have "try_body ?d (initial ()) (?m # []) =
      streaming ?d
        \<lparr>recognizer = Some (), participant_identity = JStr ''unknown'', room_id = JStr ''r1'',
         websocket = (), trace = [Created 8000]\<rparr> []"
    using valid printed built by (simp add: text_frame_def)
  then have first: "try_body ?d (initial ()) (?m # []) =
      (Suspended_loop,
       \<lparr>recognizer = Some (), participant_identity = JStr ''unknown'', room_id = JStr ''r1'',
        websocket = (), trace = [Created 8000]\<rparr>)"
    by simp
  note invalid = handshake_fields [where m = ?bad
      and kvs = "[(''sampleRate'', JStr ''fast'')]"
      and d = ?d and coerced = "Inl ValueError" and pid = "JStr ''unknown''"
      and rid = "JStr ''unknown''" and t = "()" and rest = "[]"]
  have second: "try_body ?d (initial ()) (?bad # []) = (Raised ValueError, initial ())"
    using invalid refused by (simp add: text_frame_def)
  from first second show ?thesis by simp
qed

text \<open>
  The claim as stated also promises the default for an invalid \<open>sampleRate\<close>. A
  handshake with \<open>sampleRate\<close> null gets an error event instead, and the session ends
  without a recognizer.
\<close>

theorem invalid_sample_rate_counterexample:
  "websocket_transcribe
     (scripted (Inr False) (Inr (JObj [])) (Inr (JObj [])) (Inr (JObj [])) (\<lambda>ev. None)) ()
     [text_frame (JObj [(''sampleRate'', JNull)])] =
   (Closed,
    \<lparr>recognizer = None, participant_identity = JStr ''unknown'', room_id = JStr ''unknown'',
     websocket = (), trace = [Send (ErrorEvent TypeError) None, Close None]\<rparr>)"
  by (simp add: handler_defs sample_defs)

text \<open>
  C10. A first message \<^verbatim>\<open>{"type": "stop"}\<close> is read as the handshake: with
  sample rate 16000 and both labels "unknown" the recognizer is created, and the session
  is in the loop, where the messages that follow are processed.
\<close>

theorem first_stop_is_handshake:
  assumes "msg_type m \<noteq> ''websocket.disconnect''"
      and "msg_text m = Some (Parsed (JObj [(''type'', JStr ''stop'')]))"
      and "create_recognizer d 16000 = Inr r"
  shows "try_body d (initial t) (m # rest) =
           streaming d \<lparr>recognizer = Some r, participant_identity = JStr ''unknown'',
                        room_id = JStr ''unknown'', websocket = t, trace = [Created 16000]\<rparr> rest
         \<and> before_finally d t [m] =
           (Streaming, \<lparr>recognizer = Some r, participant_identity = JStr ''unknown'',
                        room_id = JStr ''unknown'', websocket = t, trace = [Created 16000]\<rparr>)"
  using assms
  by (simp add: try_body_def before_finally_def handshake_def receive_text_def initial_def
        SAMPLE_RATE_DEFAULT_def except_clauses_def print_init_def ascii_def)

theorem first_stop_is_handshake_witness:
  "before_finally
     (scripted (Inr False) (Inr (JObj [])) (Inr (JObj [])) (Inr (JObj [])) (\<lambda>ev. None)) ()
     [text_frame (JObj [(''type'', JStr ''stop'')])] =
   (Streaming, \<lparr>recognizer = Some (), participant_identity = JStr ''unknown'',
                room_id = JStr ''unknown'', websocket = (), trace = [Created 16000]\<rparr>)"
  using first_stop_is_handshake [where m = "text_frame (JObj [(''type'', JStr ''stop'')])"
      and d = "scripted (Inr False) (Inr (JObj [])) (Inr (JObj [])) (Inr (JObj [])) (\<lambda>ev. None)"
      and r = "()" and t = "()" and rest = "[]"]
  by (simp add: sample_defs create_recognizer_def)

subsection \<open>Messages in the loop\<close>

text \<open>
  The text messages that the loop does discard: a text that is not JSON, and a JSON object
  whose \<open>type\<close> is absent or different from "stop". The loop goes on with the
  following messages from the same state.
\<close>

lemma ignored_text_frame:
  assumes "msg_type m \<noteq> ''websocket.disconnect''"
      and "msg_text m = Some (Rejected JSONDecodeError) \<or>
           (\<exists>kvs. msg_text m = Some (Parsed (JObj kvs)) \<and> map_of kvs ''type'' \<noteq> Some (JStr ''stop''))"
  shows "streaming d s (m # rest) = streaming d s rest"
  using assms by (auto simp add: has_text_def split: option.splits)

text \<open>
  A text on which \<^verbatim>\<open>json.loads\<close> raises anything but JSONDecodeError (a nesting
  too deep, an integer literal beyond the digit limit) is not discarded: the exception
  leaves the loop.
\<close>

lemma rejected_text_frame:
  assumes "msg_type m \<noteq> ''websocket.disconnect''"
      and "msg_text m = Some (Rejected e)"
      and "e \<noteq> JSONDecodeError"
  shows "streaming d s (m # rest) = (Raised e, s)"
  using assms by (simp add: has_text_def)

text \<open>
  C5. Not every valid JSON text whose \<open>type\<close> is not "stop" is discarded. A text that is
  valid JSON but not an object, here the number 1, has no \<^verbatim>\<open>get\<close>: line 64
  raises AttributeError outside the \<^verbatim>\<open>try\<close> of lines 59-62, an error event is
  sent and the session ends.
\<close>

theorem non_object_text_frame_terminates:
  "websocket_transcribe
     (scripted (Inr False) (Inr (JObj [])) (Inr (JObj [])) (Inr (JObj [])) (\<lambda>ev. None)) ()
     [text_frame (JObj []), text_frame (JInt 1)] =
   (Closed,
    \<lparr>recognizer = Some (), participant_identity = JStr ''unknown'', room_id = JStr ''unknown'',
     websocket = (),
     trace = [Created 16000, Send (ErrorEvent AttributeError) None, Flushed, Close None]\<rparr>)"
  by (simp add: handler_defs sample_defs)



subsection \<open>Engine failures\<close>

text \<open>
  Exceptions of the engine while a chunk is fed: the handler attempts one write of an error
  event carrying the exception, whatever the outcome of the write, and stands at the
  \<^verbatim>\<open>finally\<close> block. No run hands more than one error event to the transport.
\<close>

lemma feed_exception_reported_once:
  assumes "recognizer s = Some r"
      and "msg_type m \<noteq> ''websocket.disconnect''"
      and "msg_text m = None"
      and "msg_bytes m = Some audio"
      and "feed_raises d r audio = Some e"
      and "e \<noteq> WebSocketDisconnect"
  shows "fst (except_clauses d (streaming d s (m # rest))) = Terminating
       \<and> (\<exists>res. trace (snd (except_clauses d (streaming d s (m # rest)))) =
                   trace s @ [Send (ErrorEvent e) res])
       \<and> error_events (trace (snd (websocket_transcribe d t frames))) \<le> 1"
proof -
  obtain s' where s': "on_audio d s audio = (Some e, s')" "trace s' = trace s"
    using feed_raises_on_audio [OF assms(1) assms(5)] by (cases "on_audio d s audio") auto
  from assms s' have "streaming d s (m # rest) = (Raised e, s')"
    by (simp add: has_text_def)
  with assms(6) s'(2) handler_counts(3) [of d t frames] show ?thesis
    by (simp add: except_clauses_def send_trace)
qed

text \<open>
  C4. An exception of the flush is not reported. \<^verbatim>\<open>FinalResult\<close> is called at line
  120 in the \<^verbatim>\<open>finally\<close> block, outside the \<^verbatim>\<open>try\<close> whose handlers send
  the error event: in the run below, a handshake and a stop with the flush raising, no error
  event is sent, the exception leaves the handler, and the transport is never closed.
\<close>

theorem flush_exception_escapes:
  "websocket_transcribe
     (scripted (Inr False) (Inr (JObj [])) (Inr (JObj [])) (Inl (Exception ''flush failed''))
        (\<lambda>ev. None)) ()
     [text_frame (JObj []), text_frame (JObj [(''type'', JStr ''stop'')])] =
   (Escaped (Exception ''flush failed''),
    \<lparr>recognizer = Some (), participant_identity = JStr ''unknown'', room_id = JStr ''unknown'',
     websocket = (), trace = [Created 16000, Flushed]\<rparr>)"
  by (simp add: handler_defs sample_defs)

text \<open>
  C9. When \<^verbatim>\<open>AcceptWaveform\<close> raises, the error event is written, and the flush
  then returns a non-empty text whose Segment is written too, the transport has received
  the error event followed by a Segment: the error event is not the last event.
\<close>

theorem segment_after_error:
  assumes "recognizer s = Some r"
      and "msg_type m \<noteq> ''websocket.disconnect''"
      and "msg_text m = None"
      and "msg_bytes m = Some audio"
      and "AcceptWaveform d r audio = (Inl e, r1)"
      and "e \<noteq> WebSocketDisconnect"
      and "send_json d (websocket s) (ErrorEvent e) = (None, t1)"
      and "FinalResult d r1 = (Inr final, r2)"
      and "dict_get final ''text'' JNull = Inr txt"
      and "truthy txt"
      and "dict_get final ''confidence'' JNull = Inr confidence"
      and "fst (send_json d t1 (Segment txt confidence (participant_identity s) (room_id s))) = None"
  shows "fst (finish d (streaming d s (m # rest))) = Closed \<and>
         (\<exists>c. trace (snd (finish d (streaming d s (m # rest)))) =
                trace s @ [Send (ErrorEvent e) None, Flushed,
                           Send (Segment txt confidence (participant_identity s) (room_id s)) None,
                           Close c])"
  using assms
  by (auto simp add: finish_def except_clauses_def finally_block_def close_ws_def send_def
        on_audio_def has_text_def split: prod.splits)

theorem segment_after_error_witness:
  "websocket_transcribe
     (scripted (Inl (Exception ''Failed to process waveform'')) (Inr (JObj [])) (Inr (JObj []))
        (Inr (JObj [(''text'', JStr ''done'')])) (\<lambda>ev. None)) ()
     [text_frame (JObj []), audio_frame [0, 1]] =
   (Closed,
    \<lparr>recognizer = Some (), participant_identity = JStr ''unknown'', room_id = JStr ''unknown'',
     websocket = (),
     trace = [Created 16000,
              Send (ErrorEvent (Exception ''Failed to process waveform'')) None,
              Flushed,
              Send (Segment (JStr ''done'') JNull (JStr ''unknown'') (JStr ''unknown'')) None,
              Close None]\<rparr>)"
  using segment_after_error [of
      "\<lparr>recognizer = Some (), participant_identity = JStr ''unknown'', room_id = JStr ''unknown'',
        websocket = (), trace = [Created 16000]\<rparr>"
      "()" "audio_frame [0, 1]" "[0, 1]"
      "scripted (Inl (Exception ''Failed to process waveform'')) (Inr (JObj [])) (Inr (JObj []))
         (Inr (JObj [(''text'', JStr ''done'')])) (\<lambda>ev. None)"
      "Exception ''Failed to process waveform''" "()" "()"
      "JObj [(''text'', JStr ''done'')]" "()" "JStr ''done''" JNull "[]"]
  by (simp add: handler_defs sample_defs)

subsection \<open>The recognizer over a session\<close>

text \<open>
  C7, as amended. Before the \<^verbatim>\<open>finally\<close> block runs, the handler holds a
  recognizer exactly when the handshake has completed: never while it awaits the first
  message, always in the loop, and at the entry of the \<^verbatim>\<open>finally\<close> block only
  after a completed handshake. A run creates a recognizer once if the handshake completes
  and never otherwise; it flushes once if the handshake completed and the session
  terminated, and never otherwise; and without a completed handshake no Segment is sent.
\<close>

theorem recognizer_lifetime:
  "(recognizer (snd (before_finally d t frames)) \<noteq> None) = handshake_completed d t frames
   \<and> (fst (before_finally d t frames) = AwaitingInit \<longrightarrow> \<not> handshake_completed d t frames)
   \<and> (fst (before_finally d t frames) = Streaming \<longrightarrow> handshake_completed d t frames)
   \<and> creations (trace (snd (websocket_transcribe d t frames))) =
       (if handshake_completed d t frames then 1 else 0)
   \<and> flushes (trace (snd (websocket_transcribe d t frames))) =
       (if handshake_completed d t frames \<and> fst (before_finally d t frames) = Terminating
        then 1 else 0)
   \<and> (\<not> handshake_completed d t frames \<longrightarrow>
        filter is_segment (events (trace (snd (websocket_transcribe d t frames)))) = [])"
proof -
  let ?b = "before_finally d t frames"
  have await: "fst ?b = AwaitingInit \<longrightarrow> \<not> handshake_completed d t frames"
    using try_body_phase(1) [of d t frames]
    by (auto simp add: before_finally_def except_phase handshake_completed_def split: flow.splits)
  have stream: "fst ?b = Streaming \<longrightarrow> handshake_completed d t frames"
    using try_body_phase(2) [of d t frames]
    by (auto simp add: before_finally_def except_phase split: flow.splits)
  have created: "creations (trace (snd (websocket_transcribe d t frames))) =
       (if handshake_completed d t frames then 1 else 0)"
    by (simp add: handler_unfold finally_block_counts before_finally_state)
  have flushed: "flushes (trace (snd (websocket_transcribe d t frames))) =
       (if handshake_completed d t frames \<and> fst ?b = Terminating then 1 else 0)"
    using before_finally_state(1) [of d t frames]
    by (auto simp add: handler_unfold finally_block_counts before_finally_state(3))
  have segments: "\<not> handshake_completed d t frames \<longrightarrow>
        filter is_segment (events (trace (snd (websocket_transcribe d t frames)))) = []"
    using before_finally_state(1) [of d t frames]
    by (auto simp add: handler_unfold finally_without_recognizer before_finally_state(6))
  from await stream created flushed segments before_finally_state(1) [of d t frames]
  show ?thesis by blast
qed

theorem recognizer_lifetime_witness:
  "fst (before_finally
     (scripted (Inr False) (Inr (JObj [])) (Inr (JObj [])) (Inr (JObj [(''text'', JStr ''done'')]))
        (\<lambda>ev. None)) () [text_frame (JObj []), audio_frame [0, 1]]) = Streaming
   \<and> handshake_completed
     (scripted (Inr False) (Inr (JObj [])) (Inr (JObj [])) (Inr (JObj [(''text'', JStr ''done'')]))
        (\<lambda>ev. None)) () [text_frame (JObj []), audio_frame [0, 1]]
   \<and> recognizer (snd (before_finally
     (scripted (Inr False) (Inr (JObj [])) (Inr (JObj [])) (Inr (JObj [(''text'', JStr ''done'')]))
        (\<lambda>ev. None)) () [text_frame (JObj []), audio_frame [0, 1]])) = Some ()
   \<and> \<not> handshake_completed
     (scripted (Inr False) (Inr (JObj [])) (Inr (JObj [])) (Inr (JObj [(''text'', JStr ''done'')]))
        (\<lambda>ev. None)) () [malformed_frame, audio_frame [0, 1]]
   \<and> trace (snd (websocket_transcribe
     (scripted (Inr False) (Inr (JObj [])) (Inr (JObj [])) (Inr (JObj [(''text'', JStr ''done'')]))
        (\<lambda>ev. None)) () [malformed_frame, audio_frame [0, 1]])) =
     [Send (ErrorEvent JSONDecodeError) None, Close None]"
  using recognizer_lifetime [of
      "scripted (Inr False) (Inr (JObj [])) (Inr (JObj [])) (Inr (JObj [(''text'', JStr ''done'')]))
         (\<lambda>ev. None)" "()" "[text_frame (JObj []), audio_frame [0, 1]]"]
    recognizer_lifetime [of
      "scripted (Inr False) (Inr (JObj [])) (Inr (JObj [])) (Inr (JObj [(''text'', JStr ''done'')]))
         (\<lambda>ev. None)" "()" "[malformed_frame, audio_frame [0, 1]]"]
  by (simp add: handler_defs handshake_completed_def sample_defs)

text \<open>
  The claim as stated has the recognizer exist in every Terminating state. After a
  malformed handshake the session stands at the \<^verbatim>\<open>finally\<close> block without one;
  line 119 guards the flush for that reason.
\<close>

theorem terminating_without_recognizer_counterexample:
  "before_finally
     (scripted (Inr False) (Inr (JObj [])) (Inr (JObj [])) (Inr (JObj [])) (\<lambda>ev. None)) ()
     [malformed_frame] =
   (Terminating,
    \<lparr>recognizer = None, participant_identity = JStr ''unknown'', room_id = JStr ''unknown'',
     websocket = (), trace = [Send (ErrorEvent JSONDecodeError) None]\<rparr>)"
  by (simp add: handler_defs sample_defs)

text \<open>
  C8. Whatever follows the first stop message is never processed, a second stop included:
  the run is the same as the one that ends with the first stop. No run flushes more than
  once or closes more than once, and a run with a completed handshake and a stop message
  flushes exactly once.
\<close>

theorem second_stop_is_noop:
  assumes "is_stop m"
  shows "websocket_transcribe d t (init # pre @ m # m # rest) =
           websocket_transcribe d t (init # pre @ [m])
       \<and> flushes (trace (snd (websocket_transcribe d t frames))) \<le> 1
       \<and> closes (trace (snd (websocket_transcribe d t frames))) \<le> 1
       \<and> (handshake_completed d t [init] \<longrightarrow>
            flushes (trace (snd (websocket_transcribe d t (init # pre @ [m])))) = 1)"
proof -
  have same: "try_body d (initial t) (init # pre @ m # m # rest) =
              try_body d (initial t) (init # pre @ [m])"
    using streaming_after_stop [OF assms, of d _ pre "m # rest"]
    by (simp add: try_body_def split: prod.splits option.splits)
  have once: "flushes (trace (snd (websocket_transcribe d t (init # pre @ [m])))) = 1"
    if hs_ok: "handshake_completed d t [init]"
  proof -
    let ?frames = "init # pre @ [m]"
    have hc: "handshake_completed d t ?frames"
      using hs_ok by (simp add: handshake_completed_def)
    have "fst (try_body d (initial t) ?frames) \<noteq> Suspended_loop"
      using streaming_stop_leaves [OF assms, of d _ pre]
      by (simp add: try_body_def split: prod.splits option.splits)
    moreover have "fst (try_body d (initial t) ?frames) \<noteq> Suspended_init"
      using try_body_phase(1) [of d t ?frames] by simp
    ultimately have ends: "fst (before_finally d t ?frames) = Terminating"
      by (simp add: before_finally_def except_phase split: flow.splits)
    have "recognizer (snd (before_finally d t ?frames)) \<noteq> None"
      using before_finally_state(1) [of d t ?frames] hc by simp
    with ends show ?thesis
      by (auto simp add: handler_unfold finally_block_counts before_finally_state(3))
  qed
  from same once handler_counts(1,2) [of d t frames] show ?thesis
    by (simp add: websocket_transcribe_def)
qed

theorem second_stop_is_noop_witness:
  "websocket_transcribe
     (scripted (Inr False) (Inr (JObj [])) (Inr (JObj [])) (Inr (JObj [(''text'', JStr ''done'')]))
        (\<lambda>ev. None)) ()
     (text_frame (JObj []) # [audio_frame [0, 1]] @
      text_frame (JObj [(''type'', JStr ''stop'')]) #
      text_frame (JObj [(''type'', JStr ''stop'')]) # [audio_frame [2, 3]]) =
   websocket_transcribe
     (scripted (Inr False) (Inr (JObj [])) (Inr (JObj [])) (Inr (JObj [(''text'', JStr ''done'')]))
        (\<lambda>ev. None)) ()
     (text_frame (JObj []) # [audio_frame [0, 1]] @ [text_frame (JObj [(''type'', JStr ''stop'')])])
   \<and> flushes (trace (snd (websocket_transcribe
     (scripted (Inr False) (Inr (JObj [])) (Inr (JObj [])) (Inr (JObj [(''text'', JStr ''done'')]))
        (\<lambda>ev. None)) ()
     (text_frame (JObj []) # [audio_frame [0, 1]] @
      [text_frame (JObj [(''type'', JStr ''stop'')])])))) = 1"
  using second_stop_is_noop [where m = "text_frame (JObj [(''type'', JStr ''stop'')])"
      and d = "scripted (Inr False) (Inr (JObj [])) (Inr (JObj []))
                 (Inr (JObj [(''text'', JStr ''done'')])) (\<lambda>ev. None)"
      and t = "()" and init = "text_frame (JObj [])" and pre = "[audio_frame [0, 1]]"
      and rest = "[audio_frame [2, 3]]" and frames = "[]"]
  by (simp add: is_stop_def handshake_completed_def handshake_def receive_text_def initial_def
        create_recognizer_def SAMPLE_RATE_DEFAULT_def print_init_def ascii_def sample_defs)

end
